theory Spec2Isabelle
  imports Main
begin

section \<open>Schema coordinates and mappings\<close>

text \<open>
  Modelled from the spec: the coordinate types of package \<open>schema\<close> and the
  \<open>meta.RESTMapping\<close> struct, which \<open>builder.go\<close> uses and which are declared
  elsewhere. A type mapping has the identity (group, version, kind), a scope
  (namespaced or cluster) and a canonical resource plural. The functions are the
  field-level methods the Builder calls on these values (\<open>Empty\<close>, \<open>GroupKind\<close>,
  \<open>GroupVersion\<close>, \<open>WithVersion\<close>, \<open>String\<close>).
\<close>

datatype GroupVersion = GroupVersion string string
datatype GroupKind = GroupKind string string
datatype GroupResource = GroupResource string string
datatype GroupVersionKind = GroupVersionKind string string string
datatype GroupVersionResource = GroupVersionResource string string string

fun gvk_Empty :: "GroupVersionKind \<Rightarrow> bool" where
  "gvk_Empty (GroupVersionKind g v k) = (g = [] \<and> v = [] \<and> k = [])"

fun gvk_GroupKind :: "GroupVersionKind \<Rightarrow> GroupKind" where
  "gvk_GroupKind (GroupVersionKind g v k) = GroupKind g k"

fun gvk_Version :: "GroupVersionKind \<Rightarrow> string" where
  "gvk_Version (GroupVersionKind g v k) = v"

fun gvk_GroupVersion :: "GroupVersionKind \<Rightarrow> GroupVersion" where
  "gvk_GroupVersion (GroupVersionKind g v k) = GroupVersion g v"

fun gr_WithVersion :: "GroupResource \<Rightarrow> string \<Rightarrow> GroupVersionResource" where
  "gr_WithVersion (GroupResource g r) v = GroupVersionResource g v r"

fun gr_Resource :: "GroupResource \<Rightarrow> string" where
  "gr_Resource (GroupResource g r) = r"

fun gk_WithVersion :: "GroupKind \<Rightarrow> string \<Rightarrow> GroupVersionKind" where
  "gk_WithVersion (GroupKind g k) v = GroupVersionKind g v k"

fun gvr_Resource :: "GroupVersionResource \<Rightarrow> string" where
  "gvr_Resource (GroupVersionResource g v r) = r"

fun gv_String :: "GroupVersion \<Rightarrow> string" where
  "gv_String (GroupVersion g v) = (if g = [] then v else g @ ''/'' @ v)"

datatype RESTScopeName = RESTScopeNameNamespace | RESTScopeNameRoot

record RESTMapping =
  Resource :: GroupVersionResource
  GroupVersionKind_of :: GroupVersionKind
  Scope :: RESTScopeName

section \<open>Errors\<close>

text \<open>
  Modelled from the spec: the error values of collaborators, and the two helpers
  \<open>meta.IsNoMatchError\<close> (the not-found signal of the type mapper) and
  \<open>utilerrors.NewAggregate\<close>, which are declared elsewhere.

  Go errors are values. An error built in package \<open>resource\<close> by \<open>fmt.Errorf\<close> or
  \<open>errors.New\<close> is kept as its format string with its arguments, unrendered.
  \<open>utilerrors.NewAggregate\<close> wraps a non-empty error list. Errors that come from
  collaborators (REST mapper, discovery, clients, visitors) are either of the kind that
  \<open>meta.IsNoMatchError\<close> recognises, or anything else. The package variable
  \<open>missingResourceError\<close> ("You must provide one or more resources by argument or
  filename." followed by example specifications) is compared by identity and is a value
  of its own.
\<close>

datatype err =
    Errorf string "fmt_arg list"
  | Aggregate "err list"
  | NoMatchError string
  | ForeignError string
  | missingResourceError
and fmt_arg =
    ArgS string
  | ArgE err
  | ArgM "(string \<times> RESTMapping) list"

fun IsNoMatchError :: "err \<Rightarrow> bool" where
  "IsNoMatchError (NoMatchError _) = True"
| "IsNoMatchError _ = False"

text \<open>
  \<open>utilerrors.NewAggregate(errs)\<close> is nil for an empty list and the aggregate otherwise;
  the lists of this model hold no nil error.
\<close>

definition NewAggregate :: "err list \<Rightarrow> err option" where
  "NewAggregate errs = (if errs = [] then None else Some (Aggregate errs))"

section \<open>Objects and resource descriptors\<close>

text \<open>
  Modelled from the spec: \<open>runtime.Object\<close>, \<open>meta.IsListType\<close>, the wire client and
  the \<open>Info\<close> struct, which are declared elsewhere. A \<open>runtime.Object\<close> is either an
  object a collaborator decoded (its content, and whether it is list-typed, the answer
  \<open>meta.IsListType\<close> gives for it), or the \<open>v1.List\<close> that \<open>toV1List\<close> builds, which is
  list-typed. A client is the transport client with the request transforms applied to it.
  An Info has coordinates (namespace, name, optional subresource), its client and
  mapping, an optional object body and a resource version.
\<close>

datatype runtime_Object =
    Decoded string bool
  | V1List string "runtime_Object list"

fun IsListType :: "runtime_Object \<Rightarrow> bool" where
  "IsListType (Decoded _ l) = l"
| "IsListType (V1List _ _) = True"

datatype RESTClient = NewClientWithOptions string "string list"

record Info =
  Client :: "RESTClient option"
  Mapping :: "RESTMapping option"
  Namespace :: string
  Name :: string
  Subresource :: string
  Object :: "runtime_Object option"
  ResourceVersion :: string

section \<open>Visitors as the Builder composes them\<close>

text \<open>
  Modelled from the spec: the visitor implementations and hooks, which are declared
  elsewhere, as a closed set of tagged variants named after their constructors.
  The Builder only composes visitors; what each does when visited is not its concern.
  A visitor is therefore the term the Builder built: a source appended to \<open>b.paths\<close>
  by the path, stream and URL methods, an Info, a selector, or a combinator over these;
  \<open>NilVisitor\<close> is the nil interface value. A \<open>mapper\<close> is known by its decoder.
\<close>

datatype VisitorFunc =
    SetNamespace string
  | RequireNamespace string
  | FilterNamespace
  | RetrieveLazy
  | RetrieveLatest

datatype FilterFunc = FilterByLabelSelector string

datatype mapper = Mapper string

datatype Visitor =
    NilVisitor
  | PathSource string
  | InfoVisitor Info
  | NewSelector RESTClient RESTMapping string string string int
  | VisitorList "Visitor list"
  | EagerVisitorList "Visitor list"
  | ConcurrentVisitorList "Visitor list" int
  | NewFlattenListVisitor Visitor "string option" "mapper option"
  | NewDecoratedVisitor Visitor "VisitorFunc list"
  | NewFilteredVisitor Visitor "FilterFunc list"
  | ContinueOnErrorVisitor Visitor

section \<open>Traversals\<close>

text \<open>
  \<open>Visitor.Visit(fn)\<close> calls \<open>fn(info, err)\<close> some number of times, reacting to what
  each call returns, and finally returns an error or nil. One such call of \<open>Visit\<close> is a
  tree: it either finishes, leaving the outside world (streams, servers) in a new state,
  or hands an item to the callback and continues as the callback's answer decides.
  What tree a given visitor produces in a given world is the business of the visitor
  implementations, which the Result only drives.
\<close>

datatype ('i, 'w) traversal =
    Finish "err option" 'w
  | Yield 'i "err option" "err option \<Rightarrow> ('i, 'w) traversal"

primrec drive ::
  "('i, 'w) traversal \<Rightarrow> ('i \<Rightarrow> err option \<Rightarrow> 'k \<Rightarrow> err option \<times> 'k) \<Rightarrow> 'k
     \<Rightarrow> err option \<times> 'w \<times> 'k" where
  "drive (Finish e w) fn k = (e, w, k)"
| "drive (Yield i e c) fn k = (case fn i e k of (r, k') \<Rightarrow> drive (c r) fn k')"

section \<open>Result\<close>

record Result =
  err :: "err option"
  visitor :: Visitor
  sources :: "Visitor list"
  singleItemImplied :: bool
  targetsSingleItems :: bool
  mapper :: "mapper option"
  ignoreErrors :: "(err \<Rightarrow> bool) list"
  info :: "Info list option"

text \<open>The zero value \<open>&Result{}\<close>.\<close>

definition Result_zero :: "Result" where
  "Result_zero = \<lparr> err = None, visitor = NilVisitor, sources = [], singleItemImplied = False,
     targetsSingleItems = False, mapper = None, ignoreErrors = [], info = None \<rparr>"

definition withError :: "Result \<Rightarrow> err \<Rightarrow> Result" where
  "withError r e = r\<lparr>err := Some e\<rparr>"

text \<open>
  The methods below take the two collaborators they call: \<open>V\<close>, the traversal a visitor
  performs in a world, and \<open>F\<close>, \<open>utilerrors.FilterOut\<close>. They return the Go results
  together with the updated Result and world; \<open>None\<close> is the nil-pointer panic of
  calling \<open>Visit\<close> on a nil visitor.
\<close>

definition Visit ::
  "(Visitor \<Rightarrow> 'w \<Rightarrow> (Info, 'w) traversal) \<Rightarrow> (err option \<Rightarrow> (err \<Rightarrow> bool) list \<Rightarrow> err option)
    \<Rightarrow> Result \<Rightarrow> (Info \<Rightarrow> err option \<Rightarrow> 'k \<Rightarrow> err option \<times> 'k) \<Rightarrow> 'w \<Rightarrow> 'k
    \<Rightarrow> (err option \<times> Result \<times> 'w \<times> 'k) option" where
  "Visit V F r fn w k =
     (if err r \<noteq> None then Some (err r, r, w, k)
      else if visitor r = NilVisitor then None
      else (case drive (V (visitor r) w) fn k of
              (e, w', k') \<Rightarrow> Some (F e (ignoreErrors r), r, w', k')))"

text \<open>The callback of \<open>Infos\<close>: an error stops the traversal, an item is appended.\<close>

definition collect :: "Info \<Rightarrow> err option \<Rightarrow> Info list \<Rightarrow> err option \<times> Info list" where
  "collect i e infos = (case e of Some x \<Rightarrow> (Some x, infos) | None \<Rightarrow> (None, infos @ [i]))"

definition Infos ::
  "(Visitor \<Rightarrow> 'w \<Rightarrow> (Info, 'w) traversal) \<Rightarrow> (err option \<Rightarrow> (err \<Rightarrow> bool) list \<Rightarrow> err option)
    \<Rightarrow> Result \<Rightarrow> 'w
    \<Rightarrow> ((Info list option \<times> err option) \<times> Result \<times> 'w) option" where
  "Infos V F r w =
     (if err r \<noteq> None then Some ((None, err r), r, w)
      else if info r \<noteq> None then Some ((info r, None), r, w)
      else if visitor r = NilVisitor then None
      else (case drive (V (visitor r) w) collect [] of
              (e, w', infos) \<Rightarrow>
                (let e' = F e (ignoreErrors r)
                 in Some ((Some infos, e'), r\<lparr>info := Some infos, err := e'\<rparr>, w'))))"

text \<open>Ranging over a nil slice visits nothing.\<close>

fun slice :: "'a list option \<Rightarrow> 'a list" where
  "slice None = []"
| "slice (Some xs) = xs"

text \<open>
  The loop of \<open>Object\<close>: the objects of the infos that have one, and the set of their
  resource versions (\<open>sets.String\<close>, kept as a duplicate-free list).
\<close>

fun gather :: "Info list \<Rightarrow> runtime_Object list \<Rightarrow> string list
    \<Rightarrow> runtime_Object list \<times> string list" where
  "gather [] objects versions = (objects, versions)"
| "gather (i # is) objects versions =
     (case Object i of
        None \<Rightarrow> gather is objects versions
      | Some ob \<Rightarrow> gather is (objects @ [ob]) (List.insert (ResourceVersion i) versions))"

definition toV1List :: "runtime_Object list \<Rightarrow> string \<Rightarrow> runtime_Object" where
  "toV1List objects version = V1List version (foldl (\<lambda>raw ob. raw @ [ob]) [] objects)"

definition wrap :: "runtime_Object list \<Rightarrow> string list \<Rightarrow> runtime_Object" where
  "wrap objects versions =
     (let version = (case versions of [v] \<Rightarrow> v | _ \<Rightarrow> [])
      in toV1List objects version)"

definition Object_of ::
  "(Visitor \<Rightarrow> 'w \<Rightarrow> (Info, 'w) traversal) \<Rightarrow> (err option \<Rightarrow> (err \<Rightarrow> bool) list \<Rightarrow> err option)
    \<Rightarrow> Result \<Rightarrow> 'w
    \<Rightarrow> ((runtime_Object option \<times> err option) \<times> Result \<times> 'w) option" where
  "Object_of V F r w =
     (case Infos V F r w of
        None \<Rightarrow> None
      | Some ((infos, e), r', w') \<Rightarrow>
          (case e of
             Some x \<Rightarrow> Some ((None, Some x), r', w')
           | None \<Rightarrow>
               (case gather (slice infos) [] [] of
                  (objects, versions) \<Rightarrow>
                    (case objects of
                       [ob] \<Rightarrow>
                         if singleItemImplied r' then Some ((Some ob, None), r', w')
                         else if IsListType ob then Some ((Some ob, None), r', w')
                         else Some ((Some (wrap objects versions), e), r', w')
                     | _ \<Rightarrow> Some ((Some (wrap objects versions), e), r', w')))))"

section \<open>String helpers\<close>

text \<open>
  Go's \<open>strings.Split(s, sep)\<close> for a one-character separator: the pieces between the
  separators, one more than there are separators, so \<open>[""]\<close> for the empty string.
  \<open>strings.Contains(s, sep)\<close> for the same separator.
\<close>

fun Split :: "string \<Rightarrow> char \<Rightarrow> string list" where
  "Split [] c = [[]]"
| "Split (x # xs) c =
     (if x = c then [] # Split xs c
      else (case Split xs c of
              [] \<Rightarrow> [[x]]
            | y # ys \<Rightarrow> (x # y) # ys))"

definition Contains :: "string \<Rightarrow> char \<Rightarrow> bool" where
  "Contains s c = (c \<in> set s)"

fun SplitResourceArgument_loop :: "string list \<Rightarrow> string list \<Rightarrow> string list \<Rightarrow> string list" where
  "SplitResourceArgument_loop [] seen out = out"
| "SplitResourceArgument_loop (s # ss) seen out =
     (if s \<in> set seen then SplitResourceArgument_loop ss seen out
      else SplitResourceArgument_loop ss (s # seen) (out @ [s]))"

definition SplitResourceArgument :: "string \<Rightarrow> string list" where
  "SplitResourceArgument arg = SplitResourceArgument_loop (Split arg CHR '','') [] []"

section \<open>Builder\<close>

datatype resourceTuple = resourceTuple string string

fun tuple_Resource :: "resourceTuple \<Rightarrow> string" where
  "tuple_Resource (resourceTuple r n) = r"

fun tuple_Name :: "resourceTuple \<Rightarrow> string" where
  "tuple_Name (resourceTuple r n) = n"

text \<open>
  The collaborators of the Builder are parameters. The REST mapper the Builder obtains
  from \<open>restMapperFn\<close>: \<open>KindFor\<close> returns a kind and an error, of which \<open>mappingFor\<close>
  reads only the kind; \<open>RESTMapping\<close> is called with one version.
\<close>

record RESTMapper =
  KindFor :: "GroupVersionResource \<Rightarrow> GroupVersionKind \<times> err option"
  RESTMapping_for :: "GroupKind \<Rightarrow> string \<Rightarrow> err + RESTMapping"

text \<open>
  \<open>clientConfigFn.withStdinUnavailable(stdinInUse)\<close> followed by one of its two client
  constructors; the first argument is the stdin flag.
\<close>

record ClientConfigFunc =
  clientForGroupVersion :: "bool \<Rightarrow> GroupVersion \<Rightarrow> string \<Rightarrow> err + string"
  unstructuredClientForGroupVersion :: "bool \<Rightarrow> GroupVersion \<Rightarrow> err + string"

text \<open>
  Package-level functions of \<open>schema\<close> and \<open>labels\<close> that the Builder calls:
  \<open>schema.ParseResourceArg\<close>, \<open>schema.ParseKindArg\<close>, \<open>labels.Parse\<close> and
  \<open>labels.Everything().String()\<close>.
\<close>

record packages =
  ParseResourceArg :: "string \<Rightarrow> GroupVersionResource option \<times> GroupResource"
  ParseKindArg :: "string \<Rightarrow> GroupVersionKind option \<times> GroupKind"
  labels_Parse :: "string \<Rightarrow> err + string"
  Everything_String :: string

text \<open>
  The Builder struct. \<open>restMapperFn\<close> is what calling the function returns. The fields
  \<open>categoryExpanderFn\<close> and \<open>schema\<close> are read by none of the methods below and are
  left out; \<open>mapper\<close> and \<open>singleItemImplied\<close> carry a prefix, Result having fields of
  the same name.
\<close>

record Builder =
  b_mapper :: "mapper option"
  clientConfigFn :: ClientConfigFunc
  restMapperFn :: "err + RESTMapper"
  objectTyper :: "string option"
  negotiatedSerializer :: "string option"
  local :: bool
  errs :: "err list"
  paths :: "Visitor list"
  stream :: bool
  stdinInUse :: bool
  dir :: bool
  visitorConcurrency :: int
  labelSelector :: "string option"
  fieldSelector :: "string option"
  selectAll :: bool
  limitChunks :: int
  requestTransforms :: "string list"
  resources :: "string list"
  subresource :: string
  namespace :: string
  allNamespace :: bool
  names :: "string list"
  resourceTuples :: "resourceTuple list"
  defaultNamespace :: bool
  requireNamespace :: bool
  flatten :: bool
  latest :: bool
  requireObject :: bool
  singleResourceType :: bool
  continueOnError :: bool
  b_singleItemImplied :: bool
  fakeClientFn :: "(GroupVersion \<Rightarrow> err + string) option"

text \<open>\<open>newBuilder\<close>: everything zero except the collaborators and \<open>requireObject\<close>.\<close>

definition newBuilder :: "ClientConfigFunc \<Rightarrow> (err + RESTMapper) \<Rightarrow> Builder" where
  "newBuilder clientConfig restMapper =
     \<lparr> b_mapper = None, clientConfigFn = clientConfig, restMapperFn = restMapper,
       objectTyper = None, negotiatedSerializer = None, local = False, errs = [], paths = [],
       stream = False, stdinInUse = False, dir = False, visitorConcurrency = 0,
       labelSelector = None, fieldSelector = None, selectAll = False, limitChunks = 0,
       requestTransforms = [], resources = [], subresource = [], namespace = [],
       allNamespace = False, names = [], resourceTuples = [], defaultNamespace = False,
       requireNamespace = False, flatten = False, latest = False, requireObject = True,
       singleResourceType = False, continueOnError = False, b_singleItemImplied = False,
       fakeClientFn = None \<rparr>"

subsection \<open>Parsing \<open>type/name\<close> arguments\<close>

definition splitResourceTypeName :: "string \<Rightarrow> resourceTuple \<times> bool \<times> err option" where
  "splitResourceTypeName s =
     (if \<not> Contains s CHR ''/'' then (resourceTuple [] [], False, None)
      else (case Split s CHR ''/'' of
              [resource, name] \<Rightarrow>
                if length resource = 0 \<or> length name = 0
                   \<or> length (SplitResourceArgument resource) \<noteq> 1
                then (resourceTuple [] [], False,
                      Some (Errorf ''arguments in resource/name form must have a single resource and name'' []))
                else (resourceTuple resource name, True, None)
            | _ \<Rightarrow>
                (resourceTuple [] [], False,
                 Some (Errorf ''arguments in resource/name form may not have more than one slash'' []))))"

fun ResourceNames_loop :: "Builder \<Rightarrow> string \<Rightarrow> string list \<Rightarrow> Builder" where
  "ResourceNames_loop b resource [] = b"
| "ResourceNames_loop b resource (name # rest) =
     (case splitResourceTypeName name of
        (tuple, ok, Some e) \<Rightarrow> b\<lparr>errs := errs b @ [e]\<rparr>
      | (tuple, ok, None) \<Rightarrow>
          if ok then ResourceNames_loop (b\<lparr>resourceTuples := resourceTuples b @ [tuple]\<rparr>) resource rest
          else if length resource = 0
          then ResourceNames_loop
                 (b\<lparr>errs := errs b @ [Errorf ''the argument %q must be RESOURCE/NAME'' [ArgS name]]\<rparr>)
                 resource rest
          else ResourceNames_loop
                 (b\<lparr>resourceTuples := resourceTuples b @ [resourceTuple resource name]\<rparr>)
                 resource rest)"


definition ResourceTypes :: "Builder \<Rightarrow> string list \<Rightarrow> Builder" where
  "ResourceTypes b types = b\<lparr>resources := resources b @ types\<rparr>"

definition SingleResourceType :: "Builder \<Rightarrow> Builder" where
  "SingleResourceType b = b\<lparr>singleResourceType := True\<rparr>"

subsection \<open>Resolving type tokens\<close>

text \<open>
  The first two steps of \<open>mappingFor\<close>: the kind the mapper reports for the fully
  specified resource, if the argument parses as one, and otherwise (or if that kind is
  empty) for the resource without version. The mapper's errors are dropped here.
\<close>

definition kindForResource :: "packages \<Rightarrow> RESTMapper \<Rightarrow> string \<Rightarrow> GroupVersionKind" where
  "kindForResource P restMapper resourceOrKindArg =
     (case ParseResourceArg P resourceOrKindArg of
        (fullySpecifiedGVR, groupResource) \<Rightarrow>
          (let gvk0 = GroupVersionKind [] [] [];
               gvk1 = (case fullySpecifiedGVR of
                         Some gvr \<Rightarrow> fst (KindFor restMapper gvr)
                       | None \<Rightarrow> gvk0)
           in if gvk_Empty gvk1
              then fst (KindFor restMapper (gr_WithVersion groupResource []))
              else gvk1))"

definition mappingFor :: "packages \<Rightarrow> Builder \<Rightarrow> string \<Rightarrow> err + RESTMapping" where
  "mappingFor P b resourceOrKindArg =
     (case ParseResourceArg P resourceOrKindArg of
        (fullySpecifiedGVR, groupResource) \<Rightarrow>
     (case restMapperFn b of
        Inl e \<Rightarrow> Inl e
      | Inr restMapper \<Rightarrow>
          (let gvk = kindForResource P restMapper resourceOrKindArg
           in if \<not> gvk_Empty gvk
              then RESTMapping_for restMapper (gvk_GroupKind gvk) (gvk_Version gvk)
              else (case ParseKindArg P resourceOrKindArg of
                      (parsedGVK, groupKind) \<Rightarrow>
                   (let fullySpecifiedGVK = (case parsedGVK of
                                               None \<Rightarrow> gk_WithVersion groupKind []
                                             | Some g \<Rightarrow> g);
                        early = (if \<not> gvk_Empty fullySpecifiedGVK
                                 then (case RESTMapping_for restMapper
                                              (gvk_GroupKind fullySpecifiedGVK)
                                              (gvk_Version fullySpecifiedGVK) of
                                         Inr mapping \<Rightarrow> Some mapping
                                       | Inl _ \<Rightarrow> None)
                                 else None)
                    in (case early of
                          Some mapping \<Rightarrow> Inr mapping
                        | None \<Rightarrow>
                            (case RESTMapping_for restMapper groupKind (gvk_Version gvk) of
                               Inl e \<Rightarrow>
                                 if IsNoMatchError e
                                 then Inl (Errorf ''the server doesn't have a resource type %q''
                                             [ArgS (gr_Resource groupResource)])
                                 else Inl e
                             | Inr mapping \<Rightarrow> Inr mapping)))))))"

fun resourceMappings_loop ::
  "packages \<Rightarrow> Builder \<Rightarrow> string list \<Rightarrow> GroupVersionKind list \<Rightarrow> RESTMapping list
     \<Rightarrow> err + RESTMapping list" where
  "resourceMappings_loop P b [] seen mappings = Inr mappings"
| "resourceMappings_loop P b (r # rs) seen mappings =
     (case mappingFor P b r of
        Inl e \<Rightarrow> Inl e
      | Inr mapping \<Rightarrow>
          if GroupVersionKind_of mapping \<in> set seen
          then resourceMappings_loop P b rs seen mappings
          else resourceMappings_loop P b rs (GroupVersionKind_of mapping # seen)
                 (mappings @ [mapping]))"

definition resourceMappings :: "packages \<Rightarrow> Builder \<Rightarrow> err + RESTMapping list" where
  "resourceMappings P b =
     (if length (resources b) > 1 \<and> singleResourceType b
      then Inl (Errorf ''you may only specify a single resource type'' [])
      else resourceMappings_loop P b (resources b) [] [])"

text \<open>
  The Go map \<open>mappings\<close> is kept as an association list in insertion order, with one
  entry per key; the Go set \<open>canonical\<close> as a duplicate-free list.
\<close>

fun resourceTupleMappings_loop ::
  "packages \<Rightarrow> Builder \<Rightarrow> resourceTuple list \<Rightarrow> (string \<times> RESTMapping) list
     \<Rightarrow> GroupVersionResource list
     \<Rightarrow> err + ((string \<times> RESTMapping) list \<times> GroupVersionResource list)" where
  "resourceTupleMappings_loop P b [] mappings canonical = Inr (mappings, canonical)"
| "resourceTupleMappings_loop P b (r # rs) mappings canonical =
     (if map_of mappings (tuple_Resource r) \<noteq> None
      then resourceTupleMappings_loop P b rs mappings canonical
      else (case mappingFor P b (tuple_Resource r) of
              Inl e \<Rightarrow> Inl e
            | Inr mapping \<Rightarrow>
                resourceTupleMappings_loop P b rs
                  (mappings @ [(tuple_Resource r, mapping)])
                  (List.insert (Resource mapping) canonical)))"

definition resourceTupleMappings ::
  "packages \<Rightarrow> Builder \<Rightarrow> err + (string \<times> RESTMapping) list" where
  "resourceTupleMappings P b =
     (case resourceTupleMappings_loop P b (resourceTuples b) [] [] of
        Inl e \<Rightarrow> Inl e
      | Inr (mappings, canonical) \<Rightarrow>
          if length canonical > 1 \<and> singleResourceType b
          then Inl (Errorf ''you may only specify a single resource type'' [])
          else Inr mappings)"

subsection \<open>Clients\<close>

definition getClient :: "Builder \<Rightarrow> GroupVersion \<Rightarrow> err + RESTClient" where
  "getClient b gv =
     (let made = (case fakeClientFn b of
                    Some f \<Rightarrow> f gv
                  | None \<Rightarrow>
                      (case negotiatedSerializer b of
                         Some ns \<Rightarrow> clientForGroupVersion (clientConfigFn b) (stdinInUse b) gv ns
                       | None \<Rightarrow>
                           unstructuredClientForGroupVersion (clientConfigFn b) (stdinInUse b) gv))
      in (case made of
            Inl e \<Rightarrow> Inl e
          | Inr client \<Rightarrow> Inr (NewClientWithOptions client (requestTransforms b))))"

subsection \<open>The four resolution strategies\<close>

fun visitBySelector_loop ::
  "Builder \<Rightarrow> string \<Rightarrow> string \<Rightarrow> RESTMapping list \<Rightarrow> Visitor list \<Rightarrow> err + Visitor list" where
  "visitBySelector_loop b labelSel fieldSel [] visitors = Inr visitors"
| "visitBySelector_loop b labelSel fieldSel (mapping # rest) visitors =
     (case getClient b (gvk_GroupVersion (GroupVersionKind_of mapping)) of
        Inl e \<Rightarrow> Inl e
      | Inr client \<Rightarrow>
          (let selectorNamespace =
                 (if Scope mapping \<noteq> RESTScopeNameNamespace then [] else namespace b)
           in visitBySelector_loop b labelSel fieldSel rest
                (visitors @ [NewSelector client mapping selectorNamespace labelSel fieldSel
                               (limitChunks b)])))"

definition visitBySelector :: "packages \<Rightarrow> Builder \<Rightarrow> Result" where
  "visitBySelector P b =
     (let result = Result_zero\<lparr>targetsSingleItems := False\<rparr>
      in if length (names b) \<noteq> 0
         then withError result (Errorf ''name cannot be provided when a selector is specified'' [])
         else if length (resourceTuples b) \<noteq> 0
         then withError result
                (Errorf ''selectors and the all flag cannot be used when passing resource/name arguments'' [])
         else if length (resources b) = 0
         then withError result
                (Errorf ''at least one resource must be specified to use a selector'' [])
         else if length (subresource b) \<noteq> 0
         then withError result
                (Errorf ''subresource cannot be used when bulk resources are specified'' [])
         else (case resourceMappings P b of
                 Inl e \<Rightarrow> result\<lparr>err := Some e\<rparr>
               | Inr mappings \<Rightarrow>
                   (let labelSel = (case labelSelector b of Some l \<Rightarrow> l | None \<Rightarrow> []);
                        fieldSel = (case fieldSelector b of Some f \<Rightarrow> f | None \<Rightarrow> [])
                    in (case visitBySelector_loop b labelSel fieldSel mappings [] of
                          Inl e \<Rightarrow> result\<lparr>err := Some e\<rparr>
                        | Inr visitors \<Rightarrow>
                            result\<lparr>visitor := (if continueOnError b
                                                 then EagerVisitorList visitors
                                                 else VisitorList visitors),
                                   sources := visitors\<rparr>))))"

definition clientKey :: "RESTMapping \<Rightarrow> string" where
  "clientKey mapping =
     gv_String (gvk_GroupVersion (GroupVersionKind_of mapping)) @ ''/''
       @ gvr_Resource (Resource mapping)"

text \<open>
  One client per distinct key. Go ranges over the map \<open>mappings\<close> in no fixed order;
  the association list is walked in insertion order.
\<close>

fun visitByResource_clients ::
  "Builder \<Rightarrow> (string \<times> RESTMapping) list \<Rightarrow> (string \<times> RESTClient) list
     \<Rightarrow> err + (string \<times> RESTClient) list" where
  "visitByResource_clients b [] clients = Inr clients"
| "visitByResource_clients b ((tok, mapping) # rest) clients =
     (if map_of clients (clientKey mapping) \<noteq> None
      then visitByResource_clients b rest clients
      else (case getClient b (gvk_GroupVersion (GroupVersionKind_of mapping)) of
              Inl e \<Rightarrow> Inl e
            | Inr client \<Rightarrow>
                visitByResource_clients b rest (clients @ [(clientKey mapping, client)])))"

definition namespaceError :: "Builder \<Rightarrow> err" where
  "namespaceError b =
     (let errMsg = (if allNamespace b
                    then ''a resource cannot be retrieved by name across all namespaces''
                    else ''namespace may not be empty when retrieving a resource by name'')
      in Errorf errMsg [])"

fun visitByResource_items ::
  "Builder \<Rightarrow> (string \<times> RESTMapping) list \<Rightarrow> (string \<times> RESTClient) list
     \<Rightarrow> resourceTuple list \<Rightarrow> Visitor list \<Rightarrow> err + Visitor list" where
  "visitByResource_items b mappings clients [] items = Inr items"
| "visitByResource_items b mappings clients (t # rest) items =
     (case map_of mappings (tuple_Resource t) of
        None \<Rightarrow> Inl (Errorf ''resource %q is not recognized: %v''
                       [ArgS (tuple_Resource t), ArgM mappings])
      | Some mapping \<Rightarrow>
          (case map_of clients (clientKey mapping) of
             None \<Rightarrow> Inl (Errorf ''could not find a client for resource %q''
                            [ArgS (tuple_Resource t)])
           | Some client \<Rightarrow>
               if Scope mapping = RESTScopeNameNamespace \<and> length (namespace b) = 0
               then Inl (namespaceError b)
               else (let selectorNamespace =
                           (if Scope mapping \<noteq> RESTScopeNameNamespace then [] else namespace b)
                     in visitByResource_items b mappings clients rest
                          (items @ [InfoVisitor
                             \<lparr> Client = Some client, Mapping = Some mapping,
                               Namespace = selectorNamespace, Name = tuple_Name t,
                               Subresource = subresource b, Object = None,
                               ResourceVersion = [] \<rparr>]))))"

definition visitByResource :: "packages \<Rightarrow> Builder \<Rightarrow> Result" where
  "visitByResource P b =
     (let isSingleItemImplied =
            (if \<not> b_singleItemImplied b then length (resourceTuples b) = 1
             else b_singleItemImplied b);
          result = Result_zero\<lparr>singleItemImplied := isSingleItemImplied,
                               targetsSingleItems := True\<rparr>
      in if length (resources b) \<noteq> 0
         then withError result
                (Errorf ''you may not specify individual resources and bulk resources in the same call'' [])
         else (case resourceTupleMappings P b of
                 Inl e \<Rightarrow> result\<lparr>err := Some e\<rparr>
               | Inr mappings \<Rightarrow>
                   (case visitByResource_clients b mappings [] of
                      Inl e \<Rightarrow> result\<lparr>err := Some e\<rparr>
                    | Inr clients \<Rightarrow>
                        (case visitByResource_items b mappings clients (resourceTuples b) [] of
                           Inl e \<Rightarrow> withError result e
                         | Inr items \<Rightarrow>
                             result\<lparr>visitor := (if continueOnError b
                                                  then EagerVisitorList items
                                                  else VisitorList items),
                                    sources := items\<rparr>))))"

text \<open>
  \<open>visitByName\<close> reads \<open>mappings[0]\<close>; \<open>None\<close> is the index panic on an empty slice.
\<close>

definition visitByName :: "packages \<Rightarrow> Builder \<Rightarrow> Result option" where
  "visitByName P b =
     (let result = Result_zero\<lparr>singleItemImplied := (length (names b) = 1),
                               targetsSingleItems := True\<rparr>
      in if length (paths b) \<noteq> 0
         then Some (withError result
                (Errorf ''when paths, URLs, or stdin is provided as input, you may not specify a resource by arguments as well'' []))
         else if length (resources b) = 0
         then Some (withError result
                (Errorf ''you must provide a resource and a resource name together'' []))
         else if length (resources b) > 1
         then Some (withError result (Errorf ''you must specify only one resource'' []))
         else (case resourceMappings P b of
                 Inl e \<Rightarrow> Some (result\<lparr>err := Some e\<rparr>)
               | Inr [] \<Rightarrow> None
               | Inr (mapping # _) \<Rightarrow>
                   (case getClient b (gvk_GroupVersion (GroupVersionKind_of mapping)) of
                      Inl e \<Rightarrow> Some (result\<lparr>err := Some e\<rparr>)
                    | Inr client \<Rightarrow>
                        if Scope mapping = RESTScopeNameNamespace \<and> length (namespace b) = 0
                        then Some (withError result (namespaceError b))
                        else (let selectorNamespace =
                                    (if Scope mapping \<noteq> RESTScopeNameNamespace then []
                                     else namespace b);
                                  visitors = map (\<lambda>name. InfoVisitor
                                     \<lparr> Client = Some client, Mapping = Some mapping,
                                       Namespace = selectorNamespace, Name = name,
                                       Subresource = subresource b, Object = None,
                                       ResourceVersion = [] \<rparr>) (names b)
                              in Some (result\<lparr>visitor := VisitorList visitors,
                                             sources := visitors\<rparr>)))))"

definition visitByPaths :: "packages \<Rightarrow> Builder \<Rightarrow> Result" where
  "visitByPaths P b =
     (let result = Result_zero\<lparr>singleItemImplied :=
                                 (\<not> dir b \<and> \<not> stream b \<and> length (paths b) = 1),
                               targetsSingleItems := True\<rparr>
      in if length (resources b) \<noteq> 0
         then withError result
                (Errorf ''when paths, URLs, or stdin is provided as input, you may not specify resource arguments as well'' [])
         else if length (names b) \<noteq> 0
         then withError result (Errorf ''name cannot be provided when a path is specified'' [])
         else if length (resourceTuples b) \<noteq> 0
         then withError result
                (Errorf ''resource/name arguments cannot be provided when a path is specified'' [])
         else (let v0 = (if continueOnError b then EagerVisitorList (paths b)
                         else ConcurrentVisitorList (paths b) (visitorConcurrency b));
                   v1 = (if flatten b then NewFlattenListVisitor v0 (objectTyper b) (b_mapper b)
                         else v0);
                   v2 = (if latest b
                         then NewDecoratedVisitor
                                (if defaultNamespace b
                                 then NewDecoratedVisitor v1 [SetNamespace (namespace b)]
                                 else v1)
                                [RetrieveLatest]
                         else v1)
               in (case labelSelector b of
                     None \<Rightarrow> result\<lparr>visitor := v2, sources := paths b\<rparr>
                   | Some l \<Rightarrow>
                       (case labels_Parse P l of
                          Inl e \<Rightarrow> withError result
                                     (Errorf ''the provided selector %q is not valid: %v''
                                        [ArgS l, ArgE e])
                        | Inr selector \<Rightarrow>
                            result\<lparr>visitor := NewFilteredVisitor v2
                                                 [FilterByLabelSelector selector],
                                   sources := paths b\<rparr>))))"

subsection \<open>Finalization\<close>

fun resolveEach :: "packages \<Rightarrow> Builder \<Rightarrow> string list \<Rightarrow> err option" where
  "resolveEach P b [] = None"
| "resolveEach P b (r # rs) =
     (case mappingFor P b r of
        Inl e \<Rightarrow> Some e
      | Inr _ \<Rightarrow> resolveEach P b rs)"

text \<open>
  \<open>visitorResult\<close> writes \<open>b.labelSelector\<close> when select-all is set, so it returns the
  Builder as well. \<open>None\<close> is a panic.
\<close>

definition visitorResult :: "packages \<Rightarrow> Builder \<Rightarrow> (Result \<times> Builder) option" where
  "visitorResult P b0 =
     (if length (errs b0) > 0
      then Some (Result_zero\<lparr>err := NewAggregate (errs b0)\<rparr>, b0)
      else (let b = (if selectAll b0 then b0\<lparr>labelSelector := Some (Everything_String P)\<rparr>
                     else b0)
            in if length (paths b) \<noteq> 0
               then Some (visitByPaths P b, b)
               else if labelSelector b \<noteq> None \<or> fieldSelector b \<noteq> None
               then Some (visitBySelector P b, b)
               else if length (resourceTuples b) \<noteq> 0
               then Some (visitByResource P b, b)
               else if length (names b) \<noteq> 0
               then (case visitByName P b of None \<Rightarrow> None | Some r \<Rightarrow> Some (r, b))
               else if length (resources b) \<noteq> 0
               then (case resolveEach P b (resources b) of
                       Some e \<Rightarrow> Some (Result_zero\<lparr>err := Some e\<rparr>, b)
                     | None \<Rightarrow>
                         Some (Result_zero\<lparr>err := Some
                                 (Errorf ''resource(s) were provided, but no name was specified'' [])\<rparr>,
                               b))
               else Some (Result_zero\<lparr>err := Some missingResourceError\<rparr>, b)))"

text \<open>
  \<open>Do\<close>. \<open>b.Mapper()\<close> dereferences \<open>b.mapper\<close>: a Builder on which neither
  \<open>Unstructured\<close> nor \<open>WithScheme\<close> was called panics there.
\<close>

definition Do :: "packages \<Rightarrow> Builder \<Rightarrow> (Result \<times> Builder) option" where
  "Do P b0 =
     (case visitorResult P b0 of
        None \<Rightarrow> None
      | Some (r0, b) \<Rightarrow>
          (case b_mapper b of
             None \<Rightarrow> None
           | Some m \<Rightarrow>
               (let r = r0\<lparr>mapper := Some m\<rparr>
                in if err r \<noteq> None then Some (r, b)
                   else (let r1 = (if flatten b
                                   then r\<lparr>visitor := NewFlattenListVisitor (visitor r)
                                                         (objectTyper b) (b_mapper b)\<rparr>
                                   else r);
                             helpers0 = [];
                             helpers1 = (if defaultNamespace b
                                         then helpers0 @ [SetNamespace (namespace b)]
                                         else helpers0);
                             helpers2 = (if requireNamespace b
                                         then helpers1 @ [RequireNamespace (namespace b)]
                                         else helpers1);
                             helpers3 = helpers2 @ [FilterNamespace];
                             helpers = (if requireObject b then helpers3 @ [RetrieveLazy]
                                        else helpers3);
                             r2 = (if continueOnError b
                                   then r1\<lparr>visitor := ContinueOnErrorVisitor (visitor r1)\<rparr>
                                   else r1)
                         in Some (r2\<lparr>visitor := NewDecoratedVisitor (visitor r2) helpers\<rparr>, b)))))"

section \<open>The caching category expander\<close>

text \<open>
  The delegate is a Go function that may consult discovery: given the world it returns
  an expander (possibly nil) and an error (possibly nil), and a new world. The mutex
  makes each call of \<open>ToCategoryExpander\<close> atomic, so calls are modelled one after
  another.
\<close>

record ('x, 'w) cachingCategoryExpanderFunc =
  delegate :: "'w \<Rightarrow> ('x option \<times> err option) \<times> 'w"
  cached :: "'x option"

definition ToCategoryExpander ::
  "('x, 'w) cachingCategoryExpanderFunc \<Rightarrow> 'w
     \<Rightarrow> ('x option \<times> err option) \<times> ('x, 'w) cachingCategoryExpanderFunc \<times> 'w" where
  "ToCategoryExpander c w =
     (if cached c \<noteq> None then ((cached c, None), c, w)
      else (case delegate c w of
              ((ret, Some e), w') \<Rightarrow> ((None, Some e), c, w')
            | ((ret, None), w') \<Rightarrow> ((ret, None), c\<lparr>cached := ret\<rparr>, w')))"


text \<open>\<open>n\<close> calls in a row, with their results in order.\<close>

fun ToCategoryExpander_times ::
  "nat \<Rightarrow> ('x, 'w) cachingCategoryExpanderFunc \<Rightarrow> 'w
     \<Rightarrow> ('x option \<times> err option) list \<times> ('x, 'w) cachingCategoryExpanderFunc \<times> 'w" where
  "ToCategoryExpander_times 0 c w = ([], c, w)"
| "ToCategoryExpander_times (Suc n) c w =
     (case ToCategoryExpander c w of
        (out, c', w') \<Rightarrow>
          (case ToCategoryExpander_times n c' w' of
             (outs, c'', w'') \<Rightarrow> (out # outs, c'', w'')))"

section \<open>Finalization, in the words of the specification\<close>

text \<open>
  The strategy a Builder's inputs select, first match winning; the Builder after
  select-all has been turned into the everything selector; the terminal error for bulk
  types without a name; and the layers \<open>Do\<close> puts around the root visitor.
\<close>

datatype strategy =
    AccumulatedErrors | ByPaths | BySelector | ByTuples | ByNames | BulkTypesOnly | NothingConfigured

definition classify :: "Builder \<Rightarrow> strategy" where
  "classify b =
     (if errs b \<noteq> [] then AccumulatedErrors
      else if paths b \<noteq> [] then ByPaths
      else if labelSelector b \<noteq> None \<or> fieldSelector b \<noteq> None \<or> selectAll b then BySelector
      else if resourceTuples b \<noteq> [] then ByTuples
      else if names b \<noteq> [] then ByNames
      else if resources b \<noteq> [] then BulkTypesOnly
      else NothingConfigured)"

definition withSelectAll :: "packages \<Rightarrow> Builder \<Rightarrow> Builder" where
  "withSelectAll P b = (if selectAll b then b\<lparr>labelSelector := Some (Everything_String P)\<rparr> else b)"

definition noNameError :: err where
  "noNameError = Errorf ''resource(s) were provided, but no name was specified'' []"

definition flattenLayer :: "Builder \<Rightarrow> Visitor \<Rightarrow> Visitor" where
  "flattenLayer b v = (if flatten b then NewFlattenListVisitor v (objectTyper b) (b_mapper b) else v)"

definition continueLayer :: "Builder \<Rightarrow> Visitor \<Rightarrow> Visitor" where
  "continueLayer b v = (if continueOnError b then ContinueOnErrorVisitor v else v)"

definition hooks :: "Builder \<Rightarrow> VisitorFunc list" where
  "hooks b =
     (if defaultNamespace b then [SetNamespace (namespace b)] else [])
     @ (if requireNamespace b then [RequireNamespace (namespace b)] else [])
     @ [FilterNamespace]
     @ (if requireObject b then [RetrieveLazy] else [])"

text \<open>The order the specification gives: hooks inside, continue-on-error outermost.\<close>

definition layers_as_specified :: "Builder \<Rightarrow> Visitor \<Rightarrow> Visitor" where
  "layers_as_specified b v =
     continueLayer b (NewDecoratedVisitor (flattenLayer b v) (hooks b))"

section \<open>Type resolution, in the words of the specification\<close>

text \<open>
  The user-facing error for an unresolved type, the single-resource-type error, whether a
  token resolves, and the canonical resources a list of tokens resolves to.
\<close>

definition noResourceType :: "string \<Rightarrow> err" where
  "noResourceType resource = Errorf ''the server doesn't have a resource type %q'' [ArgS resource]"

definition singleTypeError :: err where
  "singleTypeError = Errorf ''you may only specify a single resource type'' []"

definition resolves :: "packages \<Rightarrow> Builder \<Rightarrow> string \<Rightarrow> bool" where
  "resolves P b tok = (case mappingFor P b tok of Inr _ \<Rightarrow> True | Inl _ \<Rightarrow> False)"

definition resolvedResources :: "packages \<Rightarrow> Builder \<Rightarrow> string list \<Rightarrow> GroupVersionResource list" where
  "resolvedResources P b toks =
     concat (map (\<lambda>tok. case mappingFor P b tok of Inr m \<Rightarrow> [Resource m] | Inl _ \<Rightarrow> []) toks)"

text \<open>
  What the loop of \<open>resourceTupleMappings\<close> maintains: \<open>canonical\<close> is duplicate-free and
  holds the resource of every stored mapping, and every stored mapping is what its token
  resolves to.
\<close>

definition tuples_inv ::
  "packages \<Rightarrow> Builder \<Rightarrow> (string \<times> RESTMapping) list \<Rightarrow> GroupVersionResource list \<Rightarrow> bool" where
  "tuples_inv P b mappings canonical =
     (distinct canonical \<and>
      (\<forall>(tok, m) \<in> set mappings. mappingFor P b tok = Inr m \<and> Resource m \<in> set canonical))"

section \<open>The list wrapper, in the words of the specification\<close>

text \<open>
  The objects that resulted, their resource versions, and the version all of them
  share (blank when they differ or when there is none).
\<close>

definition objects_of :: "Info list \<Rightarrow> runtime_Object list" where
  "objects_of infos = List.map_filter Object infos"

definition versions_of :: "Info list \<Rightarrow> string list" where
  "versions_of infos = map ResourceVersion (filter (\<lambda>i. Object i \<noteq> None) infos)"

definition common_version :: "string list \<Rightarrow> string" where
  "common_version vs = (if vs \<noteq> [] \<and> (\<forall>v \<in> set vs. v = hd vs) then hd vs else [])"

section \<open>Sample inputs\<close>

definition ex_info :: "string \<Rightarrow> string \<Rightarrow> Info" where
  "ex_info n rv = \<lparr> Client = None, Mapping = None, Namespace = ''default'', Name = n,
     Subresource = [], Object = Some (Decoded n False), ResourceVersion = rv \<rparr>"

text \<open>
  Two fail-fast visitors over a stream, the world counting how often the stream was read:
  one yields an item and then a decode error, the other yields two items.
\<close>

definition ex_failing :: "Visitor \<Rightarrow> nat \<Rightarrow> (Info, nat) traversal" where
  "ex_failing v w =
     Yield (ex_info ''a'' ''1'') None (\<lambda>r. case r of
         Some e \<Rightarrow> Finish (Some e) (Suc w)
       | None \<Rightarrow> Yield (ex_info ''b'' ''1'') (Some (ForeignError ''decode'')) (\<lambda>r. Finish r (Suc w)))"

definition ex_two :: "Visitor \<Rightarrow> nat \<Rightarrow> (Info, nat) traversal" where
  "ex_two v w =
     Yield (ex_info ''a'' ''7'') None (\<lambda>r. case r of
         Some e \<Rightarrow> Finish (Some e) (Suc w)
       | None \<Rightarrow> Yield (ex_info ''b'' ''7'') None (\<lambda>r. Finish r (Suc w)))"

definition ex_keep :: "err option \<Rightarrow> (err \<Rightarrow> bool) list \<Rightarrow> err option" where
  "ex_keep e ms = e"

definition ex_result :: Result where
  "ex_result = Result_zero\<lparr>visitor := VisitorList [PathSource ''-'']\<rparr>"

text \<open>A delegate whose discovery fails on the first two attempts and succeeds afterwards.\<close>

definition ex_delegate :: "nat \<Rightarrow> (string option \<times> err option) \<times> nat" where
  "ex_delegate n =
     (if n < 2 then ((None, Some (ForeignError ''discovery'')), Suc n)
      else ((Some ''expander'', None), Suc n))"

definition ex_single :: Result where
  "ex_single = ex_result\<lparr>singleItemImplied := True, info := Some [ex_info ''a'' ''7'']\<rparr>"

definition ex_listed :: Result where
  "ex_listed = ex_result\<lparr>info := Some [(ex_info ''l'' ''7'')\<lparr>Object := Some (Decoded ''l'' True)\<rparr>]\<rparr>"

text \<open>
  A small cluster: pods (short name \<open>po\<close>) and services in the core group, and
  \<open>widgets\<close>, whose discovery is broken; no other type is known. The sample packages
  parse tokens that carry no dot, and accept every selector.
\<close>

definition ex_pods :: RESTMapping where
  "ex_pods = \<lparr> Resource = GroupVersionResource [] ''v1'' ''pods'',
               GroupVersionKind_of = GroupVersionKind [] ''v1'' ''Pod'',
               Scope = RESTScopeNameNamespace \<rparr>"

definition ex_services :: RESTMapping where
  "ex_services = \<lparr> Resource = GroupVersionResource [] ''v1'' ''services'',
                   GroupVersionKind_of = GroupVersionKind [] ''v1'' ''Service'',
                   Scope = RESTScopeNameNamespace \<rparr>"

definition ex_KindFor :: "GroupVersionResource \<Rightarrow> GroupVersionKind \<times> err option" where
  "ex_KindFor gvr =
     (if gvr_Resource gvr = ''pods'' \<or> gvr_Resource gvr = ''po''
      then (GroupVersionKind [] ''v1'' ''Pod'', None)
      else if gvr_Resource gvr = ''services''
      then (GroupVersionKind [] ''v1'' ''Service'', None)
      else (GroupVersionKind [] [] [], Some (NoMatchError (gvr_Resource gvr))))"

fun ex_RESTMapping :: "GroupKind \<Rightarrow> string \<Rightarrow> err + RESTMapping" where
  "ex_RESTMapping (GroupKind g k) v =
     (if g = [] \<and> k = ''Pod'' then Inr ex_pods
      else if g = [] \<and> k = ''Service'' then Inr ex_services
      else if k = ''widgets'' then Inl (ForeignError ''connection refused'')
      else Inl (NoMatchError k))"

definition ex_mapper :: RESTMapper where
  "ex_mapper = \<lparr> KindFor = ex_KindFor, RESTMapping_for = ex_RESTMapping \<rparr>"

definition ex_packages :: packages where
  "ex_packages = \<lparr> ParseResourceArg = (\<lambda>s. (None, GroupResource [] s)),
                   ParseKindArg = (\<lambda>s. (None, GroupKind [] s)),
                   labels_Parse = Inr, Everything_String = [] \<rparr>"

definition ex_clients :: ClientConfigFunc where
  "ex_clients = \<lparr> clientForGroupVersion = (\<lambda>stdinUnavailable gv ns. Inr ''client''),
                  unstructuredClientForGroupVersion = (\<lambda>stdinUnavailable gv. Inr ''client'') \<rparr>"

definition ex_builder :: Builder where
  "ex_builder = (newBuilder ex_clients (Inr ex_mapper))
     \<lparr>b_mapper := Some (Mapper ''unstructured''), namespace := ''default''\<rparr>"

definition ex_bulk :: Builder where
  "ex_bulk = SingleResourceType (ResourceTypes (ex_builder\<lparr>labelSelector := Some ''app=web''\<rparr>) [''po'', ''pods''])"

definition ex_paths :: Builder where
  "ex_paths = ex_builder\<lparr>paths := [PathSource ''pod.yaml''], continueOnError := True\<rparr>"

definition ex_paths_done :: Result where
  "ex_paths_done =
     Result_zero\<lparr>singleItemImplied := True, targetsSingleItems := True,
       sources := [PathSource ''pod.yaml''],
       mapper := Some (Mapper ''unstructured''),
       visitor := NewDecoratedVisitor
                    (ContinueOnErrorVisitor (EagerVisitorList [PathSource ''pod.yaml'']))
                    [FilterNamespace, RetrieveLazy]\<rparr>"

section \<open>Properties of Result\<close>

lemma Infos_keeps_flags:
  "Infos V F r w = Some (out, r1, w1) \<Longrightarrow> singleItemImplied r1 = singleItemImplied r"
  by (auto simp: Infos_def Let_def split: if_splits prod.splits)

lemma Infos_second_call:
  assumes "err r = None" and "Infos V F r w = Some ((infos, e), r1, w1)"
  shows "Infos V' F' r1 w' = Some ((if e = None then infos else None, e), r1, w') \<and> infos \<noteq> None"
proof (cases "info r")
  case (Some xs)
  with assms have "r1 = r" "infos = Some xs" "e = None"
    by (auto simp: Infos_def)
  with Some assms(1) show ?thesis
    by (simp add: Infos_def)
next
  case None
  with assms have v: "visitor r \<noteq> NilVisitor"
    by (auto simp: Infos_def split: if_splits)
  obtain e0 w0 xs where d: "drive (V (visitor r) w) collect [] = (e0, w0, xs)"
    by (cases "drive (V (visitor r) w) collect []") auto
  from assms None v d
  have "r1 = r\<lparr>info := Some xs, err := F e0 (ignoreErrors r)\<rparr>"
    and "infos = Some xs" and "e = F e0 (ignoreErrors r)"
    by (auto simp: Infos_def Let_def)
  then show ?thesis
    by (cases e) (auto simp: Infos_def)
qed

lemma Infos_error_first:
  assumes "err r = None" and "Infos V F r w = Some ((infos, Some e), r1, w1)"
  shows "infos = Some (snd (snd (drive (V (visitor r) w) collect []))) \<and> err r1 = Some e"
  using assms
  by (auto simp: Infos_def Let_def split: if_splits prod.splits)

lemma stored_error:
  assumes "err r = Some e"
  shows "Visit V F r fn w k = Some (Some e, r, w, k)"
    and "Infos V F r w = Some ((None, Some e), r, w)"
    and "Object_of V F r w = Some ((None, Some e), r, w)"
  using assms by (simp_all add: Visit_def Infos_def Object_of_def)

text \<open>
  C4. A Result that carries a stored error answers \<open>Visit\<close>, \<open>Infos\<close> and \<open>Object\<close>
  with that error at once: the callback's state and the world are untouched, no item and
  no object is returned, and the answer is the same for every visitor behaviour.
\<close>

theorem stored_error_short_circuits:
  assumes "err r = Some e"
  shows "Visit V F r fn w k = Some (Some e, r, w, k)
       \<and> Infos V F r w = Some ((None, Some e), r, w)
       \<and> Object_of V F r w = Some ((None, Some e), r, w)"
  using assms by (simp add: Visit_def Infos_def Object_of_def)

theorem stored_error_short_circuits_witness:
  "Visit ex_two ex_keep (withError ex_result missingResourceError) collect (0::nat) []
     = Some (Some missingResourceError, withError ex_result missingResourceError, 0, [])
   \<and> Infos ex_two ex_keep (withError ex_result missingResourceError) (0::nat)
     = Some ((None, Some missingResourceError), withError ex_result missingResourceError, 0)
   \<and> Object_of ex_two ex_keep (withError ex_result missingResourceError) (0::nat)
     = Some ((None, Some missingResourceError), withError ex_result missingResourceError, 0)"
proof -
  have h: "err (withError ex_result missingResourceError) = Some missingResourceError"
    by (simp add: withError_def)
  show ?thesis by (rule stored_error_short_circuits [OF h])
qed

text \<open>
  C3, as the code has it. On a Result with no stored error, a first \<open>Infos\<close> that
  returns at all returns a list; a second \<open>Infos\<close> never drives the visitor again
  (its answer does not depend on the visitor behaviour, and the world and the Result are
  left as they were). It returns the list of the first call when that call returned no
  error, and the memoized error with no list when it returned one.
\<close>

theorem Infos_second_call_cached:
  assumes "err r = None" and "Infos V F r w = Some ((infos, e), r1, w1)"
  shows "infos \<noteq> None
       \<and> Infos V' F' r1 w' = Some ((if e = None then infos else None, e), r1, w')"
  by (simp add: Infos_second_call [OF assms])

lemma ex_failing_first:
  "Infos ex_failing ex_keep ex_result 0 =
     Some ((Some [ex_info ''a'' ''1''], Some (ForeignError ''decode'')),
           ex_result\<lparr>info := Some [ex_info ''a'' ''1''], err := Some (ForeignError ''decode'')\<rparr>, Suc 0)"
  by (simp add: Infos_def ex_result_def Result_zero_def ex_failing_def collect_def ex_keep_def)

text \<open>
  C3 as stated fails when the first traversal ends in an error: the first call returns
  the item collected so far together with the error, the second call returns the error
  and no list.
\<close>

theorem Infos_second_call_counterexample:
  "err ex_result = None
   \<and> Infos ex_failing ex_keep ex_result 0 =
       Some ((Some [ex_info ''a'' ''1''], Some (ForeignError ''decode'')),
             ex_result\<lparr>info := Some [ex_info ''a'' ''1''], err := Some (ForeignError ''decode'')\<rparr>, 1)
   \<and> Infos ex_failing ex_keep
        (ex_result\<lparr>info := Some [ex_info ''a'' ''1''], err := Some (ForeignError ''decode'')\<rparr>) 1 =
       Some ((None, Some (ForeignError ''decode'')),
             ex_result\<lparr>info := Some [ex_info ''a'' ''1''], err := Some (ForeignError ''decode'')\<rparr>, 1)
   \<and> Some [ex_info ''a'' ''1''] \<noteq> (None :: Info list option)"
  by (simp add: ex_failing_first) (simp add: Infos_def ex_result_def Result_zero_def)

lemma ex_two_first:
  "Infos ex_two ex_keep ex_result 0 =
     Some ((Some [ex_info ''a'' ''7'', ex_info ''b'' ''7''], None),
           ex_result\<lparr>info := Some [ex_info ''a'' ''7'', ex_info ''b'' ''7''], err := None\<rparr>, Suc 0)"
  by (simp add: Infos_def ex_result_def Result_zero_def ex_two_def collect_def ex_keep_def)

theorem Infos_second_call_cached_witness:
  "Infos ex_failing ex_keep 
      (ex_result\<lparr>info := Some [ex_info ''a'' ''7'', ex_info ''b'' ''7''], err := None\<rparr>) (5::nat)
    = Some ((Some [ex_info ''a'' ''7'', ex_info ''b'' ''7''], None),
           ex_result\<lparr>info := Some [ex_info ''a'' ''7'', ex_info ''b'' ''7''], err := None\<rparr>, 5)"
proof -
  have h: "err ex_result = None" by (simp add: ex_result_def Result_zero_def)
  show ?thesis
    using Infos_second_call_cached [OF h ex_two_first, of ex_failing ex_keep 5] by simp
qed

text \<open>
  C9. When the first \<open>Infos\<close> on a Result without stored error returns a traversal
  error, it returns it together with the items collected before the failure; afterwards
  \<open>Infos\<close>, \<open>Visit\<close> and \<open>Object\<close> all return that error with no items, whatever
  the visitor would do, and leave the Result as it is, so that every later call does the
  same.
\<close>

theorem traversal_error_memoized:
  assumes "err r = None" and "Infos V F r w = Some ((infos, Some e), r1, w1)"
  shows "infos = Some (snd (snd (drive (V (visitor r) w) collect [])))
       \<and> Infos V' F' r1 w' = Some ((None, Some e), r1, w')
       \<and> Visit V' F' r1 fn w' k = Some (Some e, r1, w', k)
       \<and> Object_of V' F' r1 w' = Some ((None, Some e), r1, w')"
  by (simp add: Infos_error_first [OF assms] stored_error)

theorem traversal_error_memoized_witness:
  "Some [ex_info ''a'' ''1''] = Some (snd (snd (drive (ex_failing (visitor ex_result) 0) collect [])))
   \<and> Infos ex_two ex_keep
     (ex_result\<lparr>info := Some [ex_info ''a'' ''1''], err := Some (ForeignError ''decode'')\<rparr>) (Suc 0)
     = Some ((None, Some (ForeignError ''decode'')),
         ex_result\<lparr>info := Some [ex_info ''a'' ''1''], err := Some (ForeignError ''decode'')\<rparr>, Suc 0)
   \<and> Visit ex_two ex_keep
     (ex_result\<lparr>info := Some [ex_info ''a'' ''1''], err := Some (ForeignError ''decode'')\<rparr>)
        collect (Suc 0) []
     = Some (Some (ForeignError ''decode''),
         ex_result\<lparr>info := Some [ex_info ''a'' ''1''], err := Some (ForeignError ''decode'')\<rparr>,
         Suc 0, [])
   \<and> Object_of ex_two ex_keep
     (ex_result\<lparr>info := Some [ex_info ''a'' ''1''], err := Some (ForeignError ''decode'')\<rparr>) (Suc 0)
     = Some ((None, Some (ForeignError ''decode'')),
         ex_result\<lparr>info := Some [ex_info ''a'' ''1''], err := Some (ForeignError ''decode'')\<rparr>, Suc 0)"
proof -
  have h: "err ex_result = None" by (simp add: ex_result_def Result_zero_def)
  show ?thesis
    by (rule traversal_error_memoized [OF h ex_failing_first])
qed


lemma gather_acc:
  "gather is objects versions =
     (objects @ objects_of is, fold (\<lambda>i vs. List.insert (ResourceVersion i) vs)
          (filter (\<lambda>i. Object i \<noteq> None) is) versions)"
  by (induction "is" arbitrary: objects versions)
     (auto simp: objects_of_def List.map_filter_simps split: option.splits)

lemma fold_insert_set:
  "set (fold (\<lambda>i vs. List.insert (f i) vs) xs acc) = f ` set xs \<union> set acc"
  by (induction xs arbitrary: acc) auto

lemma fold_insert_distinct:
  "distinct acc \<Longrightarrow> distinct (fold (\<lambda>i vs. List.insert (f i) vs) xs acc)"
  by (induction xs arbitrary: acc) auto

lemma gather_versions:
  "set (snd (gather is [] [])) = set (versions_of is)" "distinct (snd (gather is [] []))"
  by (simp_all add: gather_acc fold_insert_set fold_insert_distinct versions_of_def)

lemma distinct_singleton_set:
  "distinct xs \<Longrightarrow> set xs = {v} \<Longrightarrow> xs = [v]"
  by (cases xs) (auto simp: insert_eq_iff dest: subset_singletonD)

lemma single_version:
  assumes "distinct xs" and "set xs = set vs"
  shows "(case xs of [v] \<Rightarrow> v | _ \<Rightarrow> []) = common_version vs"
proof (cases "vs \<noteq> [] \<and> (\<forall>v \<in> set vs. v = hd vs)")
  case True
  then have "set vs = {hd vs}" by (cases vs) auto
  with assms have "xs = [hd vs]" by (simp add: distinct_singleton_set)
  with True show ?thesis by (simp add: common_version_def)
next
  case False
  have "\<not> (\<exists>v. xs = [v])"
  proof
    assume "\<exists>v. xs = [v]"
    then obtain v where "xs = [v]" ..
    with assms(2) have "set vs = {v}" by simp
    then have "vs \<noteq> [] \<and> (\<forall>u \<in> set vs. u = hd vs)" by (cases vs) auto
    with False show False ..
  qed
  then have "(case xs of [v] \<Rightarrow> v | _ \<Rightarrow> []) = []"
    by (cases xs) (auto split: list.splits)
  moreover from False have "common_version vs = []"
    unfolding common_version_def by (simp only: if_False)
  ultimately show ?thesis by simp
qed

lemma toV1List_items: "toV1List objects version = V1List version objects"
proof -
  have "foldl (\<lambda>raw ob. raw @ [ob]) acc objects = acc @ objects" for acc :: "runtime_Object list"
    by (induction objects arbitrary: acc) auto
  then show ?thesis by (simp add: toV1List_def)
qed

lemma wrap_gather:
  "gather is [] [] = (objects, versions) \<Longrightarrow>
     objects = objects_of is \<and> wrap objects versions = V1List (common_version (versions_of is)) (objects_of is)"
  using gather_versions [of "is"] single_version [of versions "versions_of is"]
  by (simp add: wrap_def toV1List_items gather_acc)

text \<open>
  C5. When \<open>Infos\<close> succeeds, \<open>Object\<close> returns the single resulting object bare if
  \<open>singleItemImplied\<close> is set, and also if that object is list-typed; in every other case
  it returns a \<open>v1.List\<close> holding all resulting objects in order, whose resource version
  is the one all of them share, and blank when they differ.
\<close>

theorem Object_folds_single_item:
  assumes "Infos V F r w = Some ((infos, None), r1, w1)"
  shows "(\<forall>ob. objects_of (slice infos) = [ob] \<and> singleItemImplied r
            \<longrightarrow> Object_of V F r w = Some ((Some ob, None), r1, w1))
       \<and> (\<forall>ob. objects_of (slice infos) = [ob] \<and> IsListType ob
            \<longrightarrow> Object_of V F r w = Some ((Some ob, None), r1, w1))
       \<and> ((\<forall>ob. objects_of (slice infos) = [ob] \<longrightarrow> \<not> singleItemImplied r \<and> \<not> IsListType ob)
            \<longrightarrow> Object_of V F r w =
                 Some ((Some (V1List (common_version (versions_of (slice infos)))
                                (objects_of (slice infos))), None), r1, w1))"
proof -
  obtain objects versions where g: "gather (slice infos) [] [] = (objects, versions)"
    by (cases "gather (slice infos) [] []") auto
  note w = wrap_gather [OF g]
  have s: "singleItemImplied r1 = singleItemImplied r"
    using assms by (rule Infos_keeps_flags)
  show ?thesis
    using assms g w s
    by (auto simp: Object_of_def split: list.splits)
qed

theorem Object_folds_single_item_witness:
  "Object_of ex_two ex_keep ex_single 0 = Some ((Some (Decoded ''a'' False), None), ex_single, 0)
   \<and> Object_of ex_two ex_keep ex_listed 0 = Some ((Some (Decoded ''l'' True), None), ex_listed, 0)
   \<and> Object_of ex_two ex_keep ex_result 0 =
       Some ((Some (V1List ''7'' [Decoded ''a'' False, Decoded ''b'' False]), None),
             ex_result\<lparr>info := Some [ex_info ''a'' ''7'', ex_info ''b'' ''7''], err := None\<rparr>, Suc 0)"
proof -
  have a: "Infos ex_two ex_keep ex_single 0 = Some ((Some [ex_info ''a'' ''7''], None), ex_single, 0)"
    by (simp add: Infos_def ex_single_def ex_result_def Result_zero_def)
  have b: "Infos ex_two ex_keep ex_listed 0 =
      Some ((Some [(ex_info ''l'' ''7'')\<lparr>Object := Some (Decoded ''l'' True)\<rparr>], None), ex_listed, 0)"
    by (simp add: Infos_def ex_listed_def ex_result_def Result_zero_def)
  have s: "singleItemImplied ex_single" "\<not> singleItemImplied ex_result"
    by (simp_all add: ex_single_def ex_result_def Result_zero_def)
  show ?thesis
    using Object_folds_single_item [OF a] Object_folds_single_item [OF b] Object_folds_single_item [OF ex_two_first] s
    by (simp add: objects_of_def versions_of_def common_version_def ex_info_def
          List.map_filter_simps)
qed

section \<open>Properties of the caching category expander\<close>

lemma cached_hit:
  "cached c = Some x \<Longrightarrow> ToCategoryExpander c w = ((Some x, None), c, w)"
  by (simp add: ToCategoryExpander_def)

lemma cached_forever:
  "cached c = Some x \<Longrightarrow> ToCategoryExpander_times n c w = (replicate n (Some x, None), c, w)"
  by (induction n) (simp_all add: cached_hit)

text \<open>
  C10. The caching wrapper memoizes only a successful delegate result. When the delegate
  returns an error, the error is returned, the wrapper is unchanged (still nothing
  cached), and every call on a wrapper with nothing cached runs the delegate, so the next
  call runs it again. When it returns an expander, that expander is returned and cached. Once an
  expander is cached, every call, and every run of calls, returns it and leaves the
  wrapper and the world alone, whatever the delegate is.
\<close>

theorem caching_expander_memoizes_success:
  "(cached c = None \<and> delegate c w = ((ret, Some e), w')
      \<longrightarrow> ToCategoryExpander c w = ((None, Some e), c, w'))
   \<and> (cached c = None \<and> delegate c w = ((Some x, None), w')
      \<longrightarrow> ToCategoryExpander c w = ((Some x, None), c\<lparr>cached := Some x\<rparr>, w'))
   \<and> (cached c = None
      \<longrightarrow> snd (snd (ToCategoryExpander c w)) = snd (delegate c w))
   \<and> (cached c = Some x
      \<longrightarrow> ToCategoryExpander (c\<lparr>delegate := d\<rparr>) w = ((Some x, None), c\<lparr>delegate := d\<rparr>, w)
        \<and> ToCategoryExpander_times n (c\<lparr>delegate := d\<rparr>) w
            = (replicate n (Some x, None), c\<lparr>delegate := d\<rparr>, w))"
proof -
  have failure: "cached c = None \<and> delegate c w = ((ret, Some e), w')
      \<longrightarrow> ToCategoryExpander c w = ((None, Some e), c, w')"
    by (simp add: ToCategoryExpander_def)
  have success: "cached c = None \<and> delegate c w = ((Some x, None), w')
      \<longrightarrow> ToCategoryExpander c w = ((Some x, None), c\<lparr>cached := Some x\<rparr>, w')"
    by (simp add: ToCategoryExpander_def)
  have invoked: "cached c = None
      \<longrightarrow> snd (snd (ToCategoryExpander c w)) = snd (delegate c w)"
    by (auto simp: ToCategoryExpander_def split: prod.splits option.splits)
  have hit: "cached c = Some x
      \<longrightarrow> ToCategoryExpander (c\<lparr>delegate := d\<rparr>) w = ((Some x, None), c\<lparr>delegate := d\<rparr>, w)
        \<and> ToCategoryExpander_times n (c\<lparr>delegate := d\<rparr>) w
            = (replicate n (Some x, None), c\<lparr>delegate := d\<rparr>, w)"
    by (simp add: cached_hit cached_forever)
  show ?thesis
    by (rule conjI [OF failure conjI [OF success conjI [OF invoked hit]]])
qed

theorem caching_expander_memoizes_success_witness:
  "ToCategoryExpander \<lparr>delegate = ex_delegate, cached = None\<rparr> 0
      = ((None, Some (ForeignError ''discovery'')), \<lparr>delegate = ex_delegate, cached = None\<rparr>, 1)
   \<and> ToCategoryExpander \<lparr>delegate = ex_delegate, cached = None\<rparr> 1
      = ((None, Some (ForeignError ''discovery'')), \<lparr>delegate = ex_delegate, cached = None\<rparr>, 2)
   \<and> ToCategoryExpander \<lparr>delegate = ex_delegate, cached = None\<rparr> 2
      = ((Some ''expander'', None), \<lparr>delegate = ex_delegate, cached = Some ''expander''\<rparr>, 3)
   \<and> ToCategoryExpander_times 3 \<lparr>delegate = ex_delegate, cached = Some ''expander''\<rparr> 0
      = ([(Some ''expander'', None), (Some ''expander'', None), (Some ''expander'', None)],
         \<lparr>delegate = ex_delegate, cached = Some ''expander''\<rparr>, 0)"
  using caching_expander_memoizes_success
          [where c = "\<lparr>delegate = ex_delegate, cached = None\<rparr>" and w = 0 and ret = None
             and e = "ForeignError ''discovery''" and w' = 1]
        caching_expander_memoizes_success
          [where c = "\<lparr>delegate = ex_delegate, cached = None\<rparr>" and w = 1 and ret = None
             and e = "ForeignError ''discovery''" and w' = 2]
        caching_expander_memoizes_success
          [where c = "\<lparr>delegate = ex_delegate, cached = None\<rparr>" and w = 2
             and x = "''expander''" and w' = 3]
        caching_expander_memoizes_success
          [where c = "\<lparr>delegate = ex_delegate, cached = Some ''expander''\<rparr>"
             and x = "''expander''" and d = ex_delegate and w = 0 and n = 3]
  by (simp add: ex_delegate_def numeral_3_eq_3)


section \<open>Properties of argument parsing\<close>









lemma ResourceNames_loop_errs_mono:
  "errs b \<noteq> [] \<Longrightarrow> errs (ResourceNames_loop b resource ns) \<noteq> []"
  by (induction b resource ns rule: ResourceNames_loop.induct)
     (auto split: prod.splits option.splits)






section \<open>Properties of type resolution\<close>

text \<open>
  C7. Whenever \<open>mappingFor\<close> fails, its error is one of these. If the mapper itself could
  not be obtained, that error, unchanged. If the resource lookup found a kind, the error
  of the mapping lookup for that kind, unchanged. Otherwise the final lookup, by group
  and kind without version, failed: when its error is a no-match error the result is the
  message that the server does not have the resource type, naming the resource of the
  argument; any other error of that lookup is returned unchanged.
\<close>

theorem mappingFor_error_translation:
  assumes "mappingFor P b arg = Inl e"
  shows "(case restMapperFn b of
            Inl e0 \<Rightarrow> e = e0
          | Inr restMapper \<Rightarrow>
              if \<not> gvk_Empty (kindForResource P restMapper arg)
              then RESTMapping_for restMapper
                     (gvk_GroupKind (kindForResource P restMapper arg))
                     (gvk_Version (kindForResource P restMapper arg)) = Inl e
              else (\<exists>e'. RESTMapping_for restMapper (snd (ParseKindArg P arg)) [] = Inl e'
                         \<and> e = (if IsNoMatchError e'
                                then noResourceType (gr_Resource (snd (ParseResourceArg P arg)))
                                else e')))"
proof (cases "restMapperFn b")
  case (Inl e0)
  with assms show ?thesis
    by (simp add: mappingFor_def split: prod.splits)
next
  case (Inr rm)
  show ?thesis
  proof (cases "gvk_Empty (kindForResource P rm arg)")
    case False
    with assms Inr show ?thesis
      by (simp add: mappingFor_def Let_def split: prod.splits)
  next
    case True
    then have v: "gvk_Version (kindForResource P rm arg) = []"
      by (cases "kindForResource P rm arg") simp
    from assms Inr True v show ?thesis
      by (auto simp: mappingFor_def Let_def noResourceType_def
               split: prod.splits option.splits sum.splits if_splits)
  qed
qed

theorem mappingFor_error_translation_witness:
  "mappingFor ex_packages ex_builder ''gadgets'' = Inl (noResourceType ''gadgets'')
   \<and> mappingFor ex_packages ex_builder ''widgets'' = Inl (ForeignError ''connection refused'')"
proof -
  have a: "mappingFor ex_packages ex_builder ''gadgets'' = Inl (noResourceType ''gadgets'')"
    by (simp add: mappingFor_def kindForResource_def ex_packages_def ex_builder_def newBuilder_def
          ex_mapper_def ex_KindFor_def noResourceType_def)
  have b: "mappingFor ex_packages ex_builder ''widgets'' = Inl (ForeignError ''connection refused'')"
    by (simp add: mappingFor_def kindForResource_def ex_packages_def ex_builder_def newBuilder_def
          ex_mapper_def ex_KindFor_def)
  from mappingFor_error_translation [OF a] mappingFor_error_translation [OF b] a b show ?thesis by simp
qed

lemma resourceMappings_loop_ok:
  "\<forall>r \<in> set rs. resolves P b r \<Longrightarrow> \<exists>ms. resourceMappings_loop P b rs seen acc = Inr ms"
  by (induction rs arbitrary: seen acc) (auto simp: resolves_def split: sum.splits)

lemma resourceTupleMappings_loop_ok:
  assumes "\<forall>t \<in> set rs. resolves P b (tuple_Resource t)"
      and "tuples_inv P b mappings canonical"
  shows "\<exists>ms cs. resourceTupleMappings_loop P b rs mappings canonical = Inr (ms, cs)
           \<and> tuples_inv P b ms cs
           \<and> set cs = set canonical \<union> set (resolvedResources P b (map tuple_Resource rs))"
  using assms
proof (induction rs arbitrary: mappings canonical)
  case Nil
  then show ?case by (simp add: resolvedResources_def)
next
  case (Cons t rs)
  from Cons.prems(1) obtain m where m: "mappingFor P b (tuple_Resource t) = Inr m"
    by (auto simp: resolves_def split: sum.splits)
  have rest: "\<forall>t \<in> set rs. resolves P b (tuple_Resource t)"
    using Cons.prems(1) by simp
  have here: "set (resolvedResources P b (map tuple_Resource (t # rs)))
      = insert (Resource m) (set (resolvedResources P b (map tuple_Resource rs)))"
    using m by (simp add: resolvedResources_def)
  show ?case
  proof (cases "map_of mappings (tuple_Resource t)")
    case (Some m')
    then have "(tuple_Resource t, m') \<in> set mappings" by (rule map_of_SomeD)
    with Cons.prems(2) m have "Resource m \<in> set canonical"
      by (auto simp: tuples_inv_def)
    with Cons.IH [OF rest Cons.prems(2)] Some here show ?thesis
      by auto
  next
    case None
    have inv': "tuples_inv P b (mappings @ [(tuple_Resource t, m)]) (List.insert (Resource m) canonical)"
      using Cons.prems(2) m by (auto simp: tuples_inv_def)
    from Cons.IH [OF rest inv'] None m here show ?thesis
      by auto
  qed
qed

text \<open>
  What each helper tests under the policy when every token resolves: the tuple helper
  the number of distinct canonical resources, the bulk helper the number of tokens.
\<close>

lemma resourceTupleMappings_single:
  assumes "\<forall>t \<in> set (resourceTuples b). resolves P b (tuple_Resource t)"
  shows "(resourceTupleMappings P b = Inl singleTypeError)
         = (singleResourceType b
            \<and> 1 < card (set (resolvedResources P b (map tuple_Resource (resourceTuples b)))))"
proof -
  have "tuples_inv P b [] []" by (simp add: tuples_inv_def)
  from resourceTupleMappings_loop_ok [OF assms this]
  obtain ms cs where l: "resourceTupleMappings_loop P b (resourceTuples b) [] [] = Inr (ms, cs)"
    and d: "distinct cs"
    and s: "set cs = set (resolvedResources P b (map tuple_Resource (resourceTuples b)))"
    by (auto simp: tuples_inv_def)
  from d s have "length cs = card (set (resolvedResources P b (map tuple_Resource (resourceTuples b))))"
    by (metis distinct_card)
  with l show ?thesis
    by (auto simp: resourceTupleMappings_def singleTypeError_def)
qed

lemma resourceMappings_single:
  assumes "\<forall>r \<in> set (resources b). resolves P b r"
  shows "(resourceMappings P b = Inl singleTypeError)
         = (singleResourceType b \<and> 1 < length (resources b))"
  using resourceMappings_loop_ok [OF assms, of "[]" "[]"]
  by (auto simp: resourceMappings_def singleTypeError_def)

lemma ex_mappingFor:
  assumes "restMapperFn b = Inr ex_mapper"
  shows "mappingFor ex_packages b ''po'' = Inr ex_pods"
    and "mappingFor ex_packages b ''pods'' = Inr ex_pods"
    and "mappingFor ex_packages b ''services'' = Inr ex_services"
  using assms
  by (simp_all add: mappingFor_def kindForResource_def ex_packages_def ex_mapper_def ex_KindFor_def)

lemma ex_bulk_fields:
  "restMapperFn ex_bulk = Inr ex_mapper" "singleResourceType ex_bulk"
  "resources ex_bulk = [''po'', ''pods'']" "errs ex_bulk = []" "paths ex_bulk = []"
  "selectAll ex_bulk = False" "labelSelector ex_bulk = Some ''app=web''"
  "names ex_bulk = []" "resourceTuples ex_bulk = []" "subresource ex_bulk = []"
  by (simp_all add: ex_bulk_def SingleResourceType_def ResourceTypes_def ex_builder_def newBuilder_def)

text \<open>
  C8. The claim asks for the error exactly when more than one distinct resolved type is
  present. The code departs from it on the bulk path: \<open>resourceMappings\<close> tests the number
  of type tokens before it resolves any. With the policy set, a selector and the bulk
  types \<open>po\<close> and \<open>pods\<close>, which resolve to one and the same type, it raises the
  single-resource-type error, and so does finalization. Without the policy the same
  tokens resolve to a single mapping, the shortcut and the plural being de-duplicated;
  and the tuple path, given \<open>po/a\<close> and \<open>pods/b\<close> under the policy, counts one distinct
  resource and raises no error.
\<close>

theorem single_resource_type_bulk_divergence:
  "singleResourceType ex_bulk
   \<and> resources ex_bulk = [''po'', ''pods'']
   \<and> mappingFor ex_packages ex_bulk ''po'' = Inr ex_pods
   \<and> mappingFor ex_packages ex_bulk ''pods'' = Inr ex_pods
   \<and> resourceMappings ex_packages ex_bulk = Inl singleTypeError
   \<and> visitorResult ex_packages ex_bulk
       = Some (Result_zero\<lparr>err := Some singleTypeError\<rparr>, ex_bulk)
   \<and> resourceMappings ex_packages (ex_bulk\<lparr>singleResourceType := False\<rparr>) = Inr [ex_pods]
   \<and> resourceTupleMappings ex_packages
        (ex_bulk\<lparr>resources := [],
                 resourceTuples := [resourceTuple ''po'' ''a'', resourceTuple ''pods'' ''b'']\<rparr>)
       = Inr [(''po'', ex_pods), (''pods'', ex_pods)]"
proof -
  have m: "resourceMappings ex_packages ex_bulk = Inl singleTypeError"
    by (simp add: resourceMappings_def ex_bulk_fields singleTypeError_def)
  have v: "visitorResult ex_packages ex_bulk
       = Some (Result_zero\<lparr>err := Some singleTypeError\<rparr>, ex_bulk)"
    by (simp add: visitorResult_def visitBySelector_def ex_bulk_fields m Let_def Result_zero_def)
  have f: "restMapperFn (ex_bulk\<lparr>singleResourceType := False\<rparr>) = Inr ex_mapper"
          "restMapperFn (ex_bulk\<lparr>resources := [], resourceTuples := ts\<rparr>) = Inr ex_mapper" for ts
    by (simp_all add: ex_bulk_fields)
  have d: "resourceMappings ex_packages (ex_bulk\<lparr>singleResourceType := False\<rparr>) = Inr [ex_pods]"
    by (simp add: resourceMappings_def ex_bulk_fields ex_mappingFor [OF f(1)])
  have t: "resourceTupleMappings ex_packages
        (ex_bulk\<lparr>resources := [],
                 resourceTuples := [resourceTuple ''po'' ''a'', resourceTuple ''pods'' ''b'']\<rparr>)
       = Inr [(''po'', ex_pods), (''pods'', ex_pods)]"
    by (simp add: resourceTupleMappings_def ex_bulk_fields ex_mappingFor [OF f(2)])
  show ?thesis
    by (simp add: ex_bulk_fields ex_mappingFor [OF ex_bulk_fields(1)] m v d t)
qed

theorem single_resource_type_bulk_divergence_witness:
  "resourceMappings ex_packages ex_bulk
     \<noteq> resourceMappings ex_packages (ex_bulk\<lparr>singleResourceType := False\<rparr>)"
  using single_resource_type_bulk_divergence by simp


section \<open>Properties of finalization\<close>

lemma resolveEach_None:
  "(resolveEach P b rs = None) = (\<forall>r \<in> set rs. resolves P b r)"
  by (induction rs) (auto simp: resolves_def split: sum.splits)

lemma resolveEach_Some:
  "resolveEach P b rs = Some e \<Longrightarrow>
     \<exists>pre r post. rs = pre @ r # post \<and> (\<forall>x \<in> set pre. resolves P b x) \<and> mappingFor P b r = Inl e"
proof (induction rs)
  case Nil
  then show ?case by simp
next
  case (Cons a rs)
  show ?case
  proof (cases "mappingFor P b a")
    case (Inl x)
    with Cons.prems have "e = x" by simp
    with Inl have "a # rs = [] @ a # rs \<and> (\<forall>x \<in> set []. resolves P b x) \<and> mappingFor P b a = Inl e"
      by simp
    then show ?thesis by blast
  next
    case (Inr m)
    with Cons obtain pre r post where
      "rs = pre @ r # post" "\<forall>x \<in> set pre. resolves P b x" "mappingFor P b r = Inl e"
      by auto
    with Inr have "a # rs = (a # pre) @ r # post \<and> (\<forall>x \<in> set (a # pre). resolves P b x)
        \<and> mappingFor P b r = Inl e"
      by (simp add: resolves_def)
    then show ?thesis by blast
  qed
qed

lemma resourceMappings_single_token:
  "resources b = [r] \<Longrightarrow> resourceMappings P b \<noteq> Inr []"
  by (auto simp: resourceMappings_def split: sum.splits)

lemma visitByName_returns: "visitByName P b \<noteq> None"
proof (cases "resources b")
  case Nil
  then show ?thesis by (simp add: visitByName_def Let_def)
next
  case (Cons r rs)
  show ?thesis
  proof (cases rs)
    case Nil
    with Cons have "resources b = [r]" by simp
    from resourceMappings_single_token [OF this, of P] this show ?thesis
      by (auto simp: visitByName_def Let_def split: sum.splits list.splits)
  next
    case (Cons r' rs')
    with \<open>resources b = r # rs\<close> show ?thesis
      by (simp add: visitByName_def Let_def)
  qed
qed

text \<open>
  C1. Finalization classifies the Builder's inputs by precedence, first match winning.
  Accumulated errors give a Result carrying their aggregate. Otherwise path or stream
  sources select path-based resolution; otherwise a label or field selector, or
  select-all, selects selector-based resolution; otherwise resource tuples select
  tuple-based resolution; otherwise bare names select name-based resolution, which always
  returns; otherwise bulk types are each resolved in order, the first that fails to
  resolve ending finalization with its error, and when all resolve the Result carries the
  error that resources were provided but no name was specified; otherwise the Result
  carries the missing-resource error.
\<close>

theorem visitorResult_precedence:
  "(case classify b of
      AccumulatedErrors \<Rightarrow>
        visitorResult P b = Some (Result_zero\<lparr>err := Some (Aggregate (errs b))\<rparr>, b)
    | ByPaths \<Rightarrow>
        visitorResult P b = Some (visitByPaths P (withSelectAll P b), withSelectAll P b)
    | BySelector \<Rightarrow>
        visitorResult P b = Some (visitBySelector P (withSelectAll P b), withSelectAll P b)
    | ByTuples \<Rightarrow>
        visitorResult P b = Some (visitByResource P b, b)
    | ByNames \<Rightarrow>
        (\<exists>r. visitByName P b = Some r \<and> visitorResult P b = Some (r, b))
    | BulkTypesOnly \<Rightarrow>
        (if \<forall>r \<in> set (resources b). resolves P b r
         then visitorResult P b = Some (Result_zero\<lparr>err := Some noNameError\<rparr>, b)
         else (\<exists>pre r post e. resources b = pre @ r # post
                 \<and> (\<forall>x \<in> set pre. resolves P b x) \<and> mappingFor P b r = Inl e
                 \<and> visitorResult P b = Some (Result_zero\<lparr>err := Some e\<rparr>, b)))
    | NothingConfigured \<Rightarrow>
        visitorResult P b = Some (Result_zero\<lparr>err := Some missingResourceError\<rparr>, b))"
proof (cases "classify b")
  case AccumulatedErrors
  then have "errs b \<noteq> []"
    by (auto simp: classify_def split: if_splits)
  with AccumulatedErrors show ?thesis
    by (simp add: visitorResult_def NewAggregate_def)
next
  case ByPaths
  then have "errs b = []" "paths b \<noteq> []"
    by (auto simp: classify_def split: if_splits)
  with ByPaths show ?thesis
    by (simp add: visitorResult_def withSelectAll_def Let_def)
next
  case BySelector
  then have "errs b = []" "paths b = []"
      "labelSelector b \<noteq> None \<or> fieldSelector b \<noteq> None \<or> selectAll b"
    by (auto simp: classify_def split: if_splits)
  with BySelector show ?thesis
    by (auto simp: visitorResult_def withSelectAll_def Let_def)
next
  case ByTuples
  then have "errs b = []" "paths b = []" "labelSelector b = None" "fieldSelector b = None"
      "\<not> selectAll b" "resourceTuples b \<noteq> []"
    by (auto simp: classify_def split: if_splits)
  with ByTuples show ?thesis
    by (simp add: visitorResult_def Let_def)
next
  case ByNames
  then have "errs b = []" "paths b = []" "labelSelector b = None" "fieldSelector b = None"
      "\<not> selectAll b" "resourceTuples b = []" "names b \<noteq> []"
    by (auto simp: classify_def split: if_splits)
  with ByNames visitByName_returns [of P b] show ?thesis
    by (auto simp: visitorResult_def Let_def)
next
  case BulkTypesOnly
  then have f: "errs b = []" "paths b = []" "labelSelector b = None" "fieldSelector b = None"
      "\<not> selectAll b" "resourceTuples b = []" "names b = []" "resources b \<noteq> []"
    by (auto simp: classify_def split: if_splits)
  show ?thesis
  proof (cases "resolveEach P b (resources b)")
    case None
    with BulkTypesOnly f show ?thesis
      by (simp add: visitorResult_def Let_def noNameError_def resolveEach_None [symmetric])
  next
    case (Some e)
    then have "\<not> (\<forall>r \<in> set (resources b). resolves P b r)"
      by (simp add: resolveEach_None [symmetric])
    moreover from Some f have "visitorResult P b = Some (Result_zero\<lparr>err := Some e\<rparr>, b)"
      by (simp add: visitorResult_def Let_def)
    ultimately show ?thesis
      using BulkTypesOnly resolveEach_Some [OF Some] by auto
  qed
next
  case NothingConfigured
  then have "errs b = []" "paths b = []" "labelSelector b = None" "fieldSelector b = None"
      "\<not> selectAll b" "resourceTuples b = []" "names b = []" "resources b = []"
    by (auto simp: classify_def split: if_splits)
  with NothingConfigured show ?thesis
    by (simp add: visitorResult_def Let_def)
qed

text \<open>
  C2, as the code has it. For a Builder with a mapper whose classification succeeds,
  \<open>Do\<close> wraps the root visitor in list-flattening first, if requested; then in the
  continue-on-error visitor, if requested; and last, outermost, in the decorated visitor
  whose hooks are, in this order, the default-namespace hook if requested, the
  require-namespace hook if requested, the namespace filter always, and lazy object
  retrieval if objects are required.
\<close>

theorem Do_layers:
  assumes "visitorResult P b = Some (r0, b')" and "err r0 = None" and "b_mapper b' = Some m"
  shows "Do P b =
           Some (r0\<lparr>mapper := Some m,
                    visitor := NewDecoratedVisitor
                                 (continueLayer b' (flattenLayer b' (visitor r0))) (hooks b')\<rparr>,
                 b')"
  using assms
  by (simp add: Do_def Let_def continueLayer_def flattenLayer_def hooks_def)

lemma ex_builder_fields:
  "restMapperFn ex_builder = Inr ex_mapper" "errs ex_builder = []" "paths ex_builder = []"
  "labelSelector ex_builder = None" "fieldSelector ex_builder = None" "\<not> selectAll ex_builder"
  "resourceTuples ex_builder = []" "names ex_builder = []" "resources ex_builder = []"
  by (simp_all add: ex_builder_def newBuilder_def)

lemma ex_gadgets:
  "restMapperFn b = Inr ex_mapper \<Longrightarrow> mappingFor ex_packages b ''gadgets'' = Inl (noResourceType ''gadgets'')"
  by (simp add: mappingFor_def kindForResource_def ex_packages_def ex_mapper_def ex_KindFor_def
        noResourceType_def)

theorem visitorResult_precedence_witness:
  "visitorResult ex_packages (ex_builder\<lparr>errs := [ForeignError ''stdin'']\<rparr>)
     = Some (Result_zero\<lparr>err := Some (Aggregate [ForeignError ''stdin''])\<rparr>,
             ex_builder\<lparr>errs := [ForeignError ''stdin'']\<rparr>)
   \<and> visitorResult ex_packages (ex_builder\<lparr>resources := [''pods'']\<rparr>)
     = Some (Result_zero\<lparr>err := Some noNameError\<rparr>, ex_builder\<lparr>resources := [''pods'']\<rparr>)
   \<and> visitorResult ex_packages (ex_builder\<lparr>resourceTuples := [resourceTuple ''pods'' ''web''],
                                            names := [''web'']\<rparr>)
     = Some (visitByResource ex_packages
               (ex_builder\<lparr>resourceTuples := [resourceTuple ''pods'' ''web''], names := [''web'']\<rparr>),
             ex_builder\<lparr>resourceTuples := [resourceTuple ''pods'' ''web''], names := [''web'']\<rparr>)
   \<and> visitorResult ex_packages ex_builder
     = Some (Result_zero\<lparr>err := Some missingResourceError\<rparr>, ex_builder)"
proof -
  have r: "resolves ex_packages (ex_builder\<lparr>resources := [''pods'']\<rparr>) ''pods''"
    using ex_mappingFor(2) [of "ex_builder\<lparr>resources := [''pods'']\<rparr>"]
    by (simp add: resolves_def ex_builder_fields)
  show ?thesis
    using visitorResult_precedence [where b = "ex_builder\<lparr>errs := [ForeignError ''stdin'']\<rparr>" and P = ex_packages]
          visitorResult_precedence [where b = "ex_builder\<lparr>resources := [''pods'']\<rparr>" and P = ex_packages]
          visitorResult_precedence [where b = "ex_builder\<lparr>resourceTuples := [resourceTuple ''pods'' ''web''],
                                   names := [''web'']\<rparr>" and P = ex_packages]
          visitorResult_precedence [where b = ex_builder and P = ex_packages] r
    by (simp add: classify_def ex_builder_fields)
qed

lemma ex_paths_result:
  "visitorResult ex_packages ex_paths =
     Some (Result_zero\<lparr>singleItemImplied := True, targetsSingleItems := True,
                        visitor := EagerVisitorList [PathSource ''pod.yaml''],
                        sources := [PathSource ''pod.yaml'']\<rparr>, ex_paths)"
  by (simp add: visitorResult_def visitByPaths_def Let_def ex_paths_def ex_builder_def newBuilder_def)

theorem Do_layers_witness:
  "Do ex_packages ex_paths =
     Some (Result_zero\<lparr>singleItemImplied := True, targetsSingleItems := True,
             sources := [PathSource ''pod.yaml''],
             mapper := Some (Mapper ''unstructured''),
             visitor := NewDecoratedVisitor
                          (ContinueOnErrorVisitor (EagerVisitorList [PathSource ''pod.yaml'']))
                          [FilterNamespace, RetrieveLazy]\<rparr>,
           ex_paths)"
proof -
  have e: "err (Result_zero\<lparr>singleItemImplied := True, targetsSingleItems := True,
                        visitor := EagerVisitorList [PathSource ''pod.yaml''],
                        sources := [PathSource ''pod.yaml'']\<rparr>) = None"
    by (simp add: Result_zero_def)
  have m: "b_mapper ex_paths = Some (Mapper ''unstructured'')"
    by (simp add: ex_paths_def ex_builder_def)
  show ?thesis
    using Do_layers [OF ex_paths_result e m]
    by (simp add: continueLayer_def flattenLayer_def hooks_def ex_paths_def ex_builder_def
          newBuilder_def Result_zero_def)
qed

text \<open>
  C2 as stated fails when continue-on-error is requested: the outermost layer \<open>Do\<close>
  builds is the decorated visitor with the hooks, and the continue-on-error visitor sits
  inside it, not around it.
\<close>

theorem Do_layers_counterexample:
  "continueOnError ex_paths
   \<and> Do ex_packages ex_paths = Some (ex_paths_done, ex_paths)
   \<and> visitor ex_paths_done
       = NewDecoratedVisitor
           (ContinueOnErrorVisitor (EagerVisitorList [PathSource ''pod.yaml'']))
           [FilterNamespace, RetrieveLazy]
   \<and> layers_as_specified ex_paths (EagerVisitorList [PathSource ''pod.yaml''])
       = ContinueOnErrorVisitor
           (NewDecoratedVisitor (EagerVisitorList [PathSource ''pod.yaml''])
              [FilterNamespace, RetrieveLazy])
   \<and> visitor ex_paths_done
       \<noteq> layers_as_specified ex_paths (EagerVisitorList [PathSource ''pod.yaml''])"
proof -
  have d: "Do ex_packages ex_paths = Some (ex_paths_done, ex_paths)"
    by (simp add: Do_def ex_paths_result Let_def ex_paths_done_def)
       (simp add: ex_paths_def ex_builder_def newBuilder_def Result_zero_def)
  have l: "layers_as_specified ex_paths (EagerVisitorList [PathSource ''pod.yaml''])
       = ContinueOnErrorVisitor
           (NewDecoratedVisitor (EagerVisitorList [PathSource ''pod.yaml''])
              [FilterNamespace, RetrieveLazy])"
    by (simp add: layers_as_specified_def continueLayer_def flattenLayer_def hooks_def
          ex_paths_def ex_builder_def newBuilder_def)
  have v: "visitor ex_paths_done
       = NewDecoratedVisitor
           (ContinueOnErrorVisitor (EagerVisitorList [PathSource ''pod.yaml'']))
           [FilterNamespace, RetrieveLazy]"
    by (simp add: ex_paths_done_def)
  have c: "continueOnError ex_paths"
    by (simp add: ex_paths_def)
  show ?thesis
    by (simp add: d l v c)
qed

end
